theory Spec2Isabelle
  imports Main "HOL-Library.Word"
begin

unbundle bit_operations_syntax

section \<open>The event vocabulary (event.go, lines 3-41)\<close>

text \<open>
  \<^verbatim>\<open>type Event string\<close>: an event token is a Go string, that is a sequence of bytes.
  The 33 constants keep their names and values.
\<close>

type_synonym Event = string

definition CommitCommentEvent :: Event where "CommitCommentEvent = ''commit_comment''"
definition CreateEvent :: Event where "CreateEvent = ''create''"
definition DeleteEvent :: Event where "DeleteEvent = ''delete''"
definition DeploymentEvent :: Event where "DeploymentEvent = ''deployment''"
definition DeploymentStatusEvent :: Event where "DeploymentStatusEvent = ''deployment_status''"
definition ForkEvent :: Event where "ForkEvent = ''fork''"
definition GollumEvent :: Event where "GollumEvent = ''gollum''"
definition InstallationEvent :: Event where "InstallationEvent = ''installation''"
definition IntegrationInstallationEvent :: Event where
  "IntegrationInstallationEvent = ''integration_installation''"
definition IssueCommentEvent :: Event where "IssueCommentEvent = ''issue_comment''"
definition IssuesEvent :: Event where "IssuesEvent = ''issues''"
definition LabelEvent :: Event where "LabelEvent = ''label''"
definition MemberEvent :: Event where "MemberEvent = ''member''"
definition MembershipEvent :: Event where "MembershipEvent = ''membership''"
definition MilestoneEvent :: Event where "MilestoneEvent = ''milestone''"
definition OrganizationEvent :: Event where "OrganizationEvent = ''organization''"
definition OrgBlockEvent :: Event where "OrgBlockEvent = ''org_block''"
definition PageBuildEvent :: Event where "PageBuildEvent = ''page_build''"
definition PingEvent :: Event where "PingEvent = ''ping''"
definition ProjectCardEvent :: Event where "ProjectCardEvent = ''project_card''"
definition ProjectColumnEvent :: Event where "ProjectColumnEvent = ''project_column''"
definition ProjectEvent :: Event where "ProjectEvent = ''project''"
definition PublicEvent :: Event where "PublicEvent = ''public''"
definition PullRequestEvent :: Event where "PullRequestEvent = ''pull_request''"
definition PullRequestReviewEvent :: Event where
  "PullRequestReviewEvent = ''pull_request_review''"
definition PullRequestReviewCommentEvent :: Event where
  "PullRequestReviewCommentEvent = ''pull_request_review_comment''"
definition PushEvent :: Event where "PushEvent = ''push''"
definition ReleaseEvent :: Event where "ReleaseEvent = ''release''"
definition RepositoryEvent :: Event where "RepositoryEvent = ''repository''"
definition StatusEvent :: Event where "StatusEvent = ''status''"
definition TeamEvent :: Event where "TeamEvent = ''team''"
definition TeamAddEvent :: Event where "TeamAddEvent = ''team_add''"
definition WatchEvent :: Event where "WatchEvent = ''watch''"

text \<open>The vocabulary as a list, in the order of the constant block.\<close>

definition vocabulary :: "Event list" where
  "vocabulary =
     [CommitCommentEvent, CreateEvent, DeleteEvent, DeploymentEvent, DeploymentStatusEvent,
      ForkEvent, GollumEvent, InstallationEvent, IntegrationInstallationEvent,
      IssueCommentEvent, IssuesEvent, LabelEvent, MemberEvent, MembershipEvent,
      MilestoneEvent, OrganizationEvent, OrgBlockEvent, PageBuildEvent, PingEvent,
      ProjectCardEvent, ProjectColumnEvent, ProjectEvent, PublicEvent, PullRequestEvent,
      PullRequestReviewEvent, PullRequestReviewCommentEvent, PushEvent, ReleaseEvent,
      RepositoryEvent, StatusEvent, TeamEvent, TeamAddEvent, WatchEvent]"

section \<open>The Go library, as far as the pipeline calls it\<close>

subsection \<open>Byte strings, headers, status codes\<close>

text \<open>
  Go strings and byte slices are sequences of bytes; the conversions \<^verbatim>\<open>[]byte(s)\<close> and
  \<^verbatim>\<open>string(b)\<close> keep the bytes. Both are \<^typ>\<open>string\<close> here; the digest functions work
  on 8-bit words.
\<close>

type_synonym bytes = string
type_synonym byte = "8 word"
type_synonym w32 = "32 word"

definition string_bytes :: "string \<Rightarrow> byte list" where
  "string_bytes s = map of_char s"

text \<open>
  \<^verbatim>\<open>http.Header\<close> is \<^verbatim>\<open>map[string][]string\<close>. \<^verbatim>\<open>Get\<close> returns the first value stored
  under the key and the empty string when there is none. (The library canonicalises the
  key on both sides; the model keys the map by the name the source writes.)
\<close>

type_synonym Header = "string \<rightharpoonup> string list"

definition Header_Get :: "Header \<Rightarrow> string \<Rightarrow> string" where
  "Header_Get h key = (case h key of None \<Rightarrow> [] | Some [] \<Rightarrow> [] | Some (v # _) \<Rightarrow> v)"

definition StatusBadRequest :: nat where "StatusBadRequest = 400"
definition StatusForbidden :: nat where "StatusForbidden = 403"
definition StatusInternalServerError :: nat where "StatusInternalServerError = 500"

text \<open>A Go \<^verbatim>\<open>error\<close> value: \<^verbatim>\<open>nil\<close>, or an error carrying its message.\<close>

type_synonym go_error = "string option"

subsection \<open>crypto/sha1, crypto/hmac, encoding/hex\<close>

text \<open>
  SHA-1 as FIPS 180-4 defines it and HMAC as RFC 2104 defines it, which is what
  \<^verbatim>\<open>hmac.New(sha1.New, key)\<close>, \<^verbatim>\<open>Write\<close> and \<^verbatim>\<open>Sum(nil)\<close> compute.
\<close>

definition be32 :: "byte list \<Rightarrow> w32" where
  "be32 bs = foldl (\<lambda>acc b. push_bit 8 acc OR ucast b) 0 bs"

definition w32_bytes :: "w32 \<Rightarrow> byte list" where
  "w32_bytes x = [ucast (drop_bit 24 x), ucast (drop_bit 16 x), ucast (drop_bit 8 x), ucast x]"

definition len64_bytes :: "nat \<Rightarrow> byte list" where
  "len64_bytes n =
     (let x = (of_nat n :: 64 word) in map (\<lambda>i. ucast (drop_bit (8 * (7 - i)) x)) [0..<8])"

definition sha1_pad :: "byte list \<Rightarrow> byte list" where
  "sha1_pad m =
     m @ [0x80] @ replicate ((119 - length m mod 64) mod 64) 0 @ len64_bytes (8 * length m)"

definition rotl32 :: "nat \<Rightarrow> w32 \<Rightarrow> w32" where
  "rotl32 n x = push_bit n x OR drop_bit (32 - n) x"

primrec chunks :: "nat \<Rightarrow> nat \<Rightarrow> 'a list \<Rightarrow> 'a list list" where
  "chunks k 0 xs = []"
| "chunks k (Suc n) xs = take k xs # chunks k n (drop k xs)"

primrec schedule :: "nat \<Rightarrow> w32 list \<Rightarrow> w32 list" where
  "schedule 0 ws = ws"
| "schedule (Suc n) ws =
     schedule n
       (ws @ [rotl32 1 (ws ! (length ws - 3) XOR ws ! (length ws - 8)
                        XOR ws ! (length ws - 14) XOR ws ! (length ws - 16))])"

type_synonym sha1_state = "w32 \<times> w32 \<times> w32 \<times> w32 \<times> w32"

definition sha1_round :: "w32 list \<Rightarrow> sha1_state \<Rightarrow> nat \<Rightarrow> sha1_state" where
  "sha1_round ws s i =
     (case s of (a, b, c, d, e) \<Rightarrow>
        (let f = (if i < 20 then (b AND c) OR (NOT b AND d)
                  else if i < 40 then b XOR c XOR d
                  else if i < 60 then (b AND c) OR (b AND d) OR (c AND d)
                  else b XOR c XOR d);
             k = (if i < 20 then 0x5A827999 else if i < 40 then 0x6ED9EBA1
                  else if i < 60 then 0x8F1BBCDC else 0xCA62C1D6);
             t = rotl32 5 a + f + e + k + ws ! i
         in (t, a, rotl32 30 b, c, d)))"

definition sha1_block :: "sha1_state \<Rightarrow> byte list \<Rightarrow> sha1_state" where
  "sha1_block h blk =
     (let ws = schedule 64 (map be32 (chunks 4 16 blk)) in
      case (h, foldl (sha1_round ws) h [0..<80]) of
        ((h0, h1, h2, h3, h4), (a, b, c, d, e)) \<Rightarrow> (h0 + a, h1 + b, h2 + c, h3 + d, h4 + e))"

definition sha1_init :: sha1_state where
  "sha1_init = (0x67452301, 0xEFCDAB89, 0x98BADCFE, 0x10325476, 0xC3D2E1F0)"

definition sha1_digest :: "sha1_state \<Rightarrow> byte list" where
  "sha1_digest s =
     (case s of (h0, h1, h2, h3, h4) \<Rightarrow> concat (map w32_bytes [h0, h1, h2, h3, h4]))"

definition sha1_Sum :: "byte list \<Rightarrow> byte list" where
  "sha1_Sum m =
     (let p = sha1_pad m in
      sha1_digest (foldl sha1_block sha1_init (chunks 64 (length p div 64) p)))"

definition hmac_key_block :: "byte list \<Rightarrow> byte list" where
  "hmac_key_block key =
     (let k = (if length key > 64 then sha1_Sum key else key) in k @ replicate (64 - length k) 0)"

definition hmac_sha1 :: "byte list \<Rightarrow> byte list \<Rightarrow> byte list" where
  "hmac_sha1 key msg =
     (let k = hmac_key_block key in
      sha1_Sum (map (\<lambda>b. b XOR 0x5c) k @ sha1_Sum (map (\<lambda>b. b XOR 0x36) k @ msg)))"

definition hexdigit :: "nat \<Rightarrow> char" where
  "hexdigit n = ''0123456789abcdef'' ! n"

definition hex_EncodeToString :: "byte list \<Rightarrow> string" where
  "hex_EncodeToString bs =
     concat (map (\<lambda>b. [hexdigit (unat b div 16), hexdigit (unat b mod 16)]) bs)"

text \<open>
  \<^verbatim>\<open>hmac.Equal\<close> compares two byte slices in constant time; its result is true exactly
  when they have the same length and the same bytes.
\<close>

definition hmac_Equal :: "bytes \<Rightarrow> bytes \<Rightarrow> bool" where
  "hmac_Equal mac1 mac2 = (mac1 = mac2)"

subsection \<open>encoding/json and the payload types\<close>

text \<open>
  The payload struct types are declared in a file of the package that is not among the
  sources; the pipeline only names them. \<open>Unmarshalled T data\<close> stands for the value a
  zero-initialised variable of struct type \<open>T\<close> holds after
  \<^verbatim>\<open>json.Unmarshal(data, &v)\<close>. Every case of the switch calls \<^verbatim>\<open>json.Unmarshal\<close> as a
  statement: the error it returns is dropped, so it has no place in the model.
\<close>

datatype Schema =
    CommitCommentPayload | CreatePayload | DeletePayload | DeploymentPayload
  | DeploymentStatusPayload | ForkPayload | GollumPayload | InstallationPayload
  | IssueCommentPayload | IssuesPayload | LabelPayload | MemberPayload | MembershipPayload
  | MilestonePayload | OrganizationPayload | OrgBlockPayload | PageBuildPayload
  | PingPayload | ProjectCardPayload | ProjectColumnPayload | ProjectPayload
  | PublicPayload | PullRequestPayload | PullRequestReviewPayload
  | PullRequestReviewCommentPayload | PushPayload | ReleasePayload | RepositoryPayload
  | StatusPayload | TeamPayload | TeamAddPayload | WatchPayload

datatype payload_value = Unmarshalled Schema bytes

section \<open>The registry, the request and the observable effects\<close>

text \<open>
  \<^verbatim>\<open>Webhook\<close> holds the secret and the map from event token to handler. Handlers are
  values of an arbitrary type \<open>'f\<close>: the pipeline only looks them up and calls them.
\<close>

record 'f Webhook =
  secret :: string
  eventFuncs :: "Event \<rightharpoonup> 'f"

text \<open>
  A request, as far as the pipeline reads it: the header map, and what
  \<^verbatim>\<open>ioutil.ReadAll(r.Body)\<close> returns (the bytes read and an error).
\<close>

record Request =
  Header :: Header
  Body :: "bytes \<times> go_error"

text \<open>
  What a run does to the outside, in order: log lines, error responses written with
  \<^verbatim>\<open>http.Error(w, msg, code)\<close>, and the call \<^verbatim>\<open>fn(results, header)\<close> of a handler.
\<close>

datatype 'f effect =
    LogInfo string
  | LogDebug string
  | LogError string
  | HttpError string nat
  | Invoke 'f payload_value Header

text \<open>A function either returns a value or panics (a Go run-time panic).\<close>

datatype 'a outcome = Returns 'a | Panics string

fun invocations :: "'f effect list \<Rightarrow> ('f \<times> payload_value \<times> Header) list" where
  "invocations [] = []"
| "invocations (Invoke fn v hdr # es) = (fn, v, hdr) # invocations es"
| "invocations (_ # es) = invocations es"

fun responses :: "'f effect list \<Rightarrow> (string \<times> nat) list" where
  "responses [] = []"
| "responses (HttpError msg code # es) = (msg, code) # responses es"
| "responses (_ # es) = responses es"

section \<open>The pipeline (lines 69-297)\<close>

definition getGitHubEvent :: "'r Request_scheme \<Rightarrow> 'f effect list \<times> (string + Event)" where
  "getGitHubEvent r =
     (let event = Header_Get (Header r) ''X-GitHub-Event'' in
      if length event = 0 then
        (let err = ''Missing X-GitHub-Event Header'' in
         ([LogInfo ''Parsing Payload...'', HttpError err StatusBadRequest], Inl err))
      else
        ([LogInfo ''Parsing Payload...'', LogDebug (''X-GitHub-Event:'' @ event)], Inr event))"

text \<open>
  \<^verbatim>\<open>verifySignature\<close> reads \<^verbatim>\<open>payload\<close> in \<^verbatim>\<open>mac.Write(payload)\<close>, a name that is neither
  a parameter nor a local of the function: it is resolved outside the function, and its
  declaration is not among the sources. It is the parameter \<open>payload\<close> here.
  \<^verbatim>\<open>signature[5:]\<close> panics when the string has fewer than five bytes; the digest is
  computed before the slice is taken.
\<close>

definition verifySignature ::
  "('f, 'h) Webhook_scheme \<Rightarrow> bytes \<Rightarrow> 'r Request_scheme \<Rightarrow> 'f effect list \<times> go_error outcome"
where
  "verifySignature hook payload r =
     (if length (secret hook) > 0 then
        (let signature = Header_Get (Header r) ''X-Hub-Signature'' in
         if length signature = 0 then
           (let err = ''Missing X-Hub-Signature required for HMAC verification'' in
            ([LogInfo ''Checking secret'', LogError err, HttpError err StatusForbidden],
             Returns (Some err)))
         else
           (let expectedMAC =
                  hex_EncodeToString
                    (hmac_sha1 (string_bytes (secret hook)) (string_bytes payload));
                tr = [LogInfo ''Checking secret'', LogDebug (''X-Hub-Signature:'' @ signature)]
            in
            if length signature < 5 then
              (tr, Panics ''slice bounds out of range'')
            else if \<not> hmac_Equal (drop 5 signature) expectedMAC then
              (let err = ''HMAC verification failed'' in
               (tr @ [LogError err, HttpError err StatusForbidden], Returns (Some err)))
            else (tr, Returns None)))
      else ([], Returns None))"

definition readPayload :: "'r Request_scheme \<Rightarrow> 'f effect list \<times> (string + bytes)" where
  "readPayload r =
     (case Body r of (payload, err) \<Rightarrow>
        if err \<noteq> None \<or> length payload = 0 then
          (let err = ''Issue reading Payload'' in
           ([LogError err, HttpError err StatusInternalServerError], Inl err))
        else ([LogDebug (''Payload:'' @ payload)], Inr payload))"

text \<open>
  \<^verbatim>\<open>getGitHubHandler\<close> is a plain function, not a method: the \<^verbatim>\<open>hook\<close> whose map it reads
  is resolved outside the function. It is the parameter \<open>hook\<close> here.
\<close>

definition getGitHubHandler :: "('f, 'h) Webhook_scheme \<Rightarrow> Event \<Rightarrow> string + 'f" where
  "getGitHubHandler hook event =
     (case eventFuncs hook event of
        None \<Rightarrow>
          Inl (''Webhook Event '' @ event @
               '' not registered, it is recommended to setup only events in github that will be registered in the webhook to avoid unnecessary traffic and reduce potential attack vectors.'')
      | Some fn \<Rightarrow> Inr fn)"

definition runProcessPayloadFunc :: "'f \<Rightarrow> payload_value \<Rightarrow> Header \<Rightarrow> 'f effect list" where
  "runProcessPayloadFunc fn results header = [Invoke fn results header]"

text \<open>
  The switch of \<^verbatim>\<open>ParsePayload\<close> (lines 159-288), case by case in the source's order. It
  has no default case: a token that matches none of them does nothing.
\<close>

definition ParsePayload_switch :: "'f \<Rightarrow> bytes \<Rightarrow> Header \<Rightarrow> Event \<Rightarrow> 'f effect list" where
  "ParsePayload_switch fn payload hdr gitHubEvent =
     (if gitHubEvent = CommitCommentEvent then
        runProcessPayloadFunc fn (Unmarshalled CommitCommentPayload payload) hdr
      else if gitHubEvent = CreateEvent then
        runProcessPayloadFunc fn (Unmarshalled CreatePayload payload) hdr
      else if gitHubEvent = DeleteEvent then
        runProcessPayloadFunc fn (Unmarshalled DeletePayload payload) hdr
      else if gitHubEvent = DeploymentEvent then
        runProcessPayloadFunc fn (Unmarshalled DeploymentPayload payload) hdr
      else if gitHubEvent = DeploymentStatusEvent then
        runProcessPayloadFunc fn (Unmarshalled DeploymentStatusPayload payload) hdr
      else if gitHubEvent = ForkEvent then
        runProcessPayloadFunc fn (Unmarshalled ForkPayload payload) hdr
      else if gitHubEvent = GollumEvent then
        runProcessPayloadFunc fn (Unmarshalled GollumPayload payload) hdr
      else if gitHubEvent = InstallationEvent \<or> gitHubEvent = IntegrationInstallationEvent then
        runProcessPayloadFunc fn (Unmarshalled InstallationPayload payload) hdr
      else if gitHubEvent = IssueCommentEvent then
        runProcessPayloadFunc fn (Unmarshalled IssueCommentPayload payload) hdr
      else if gitHubEvent = IssuesEvent then
        runProcessPayloadFunc fn (Unmarshalled IssuesPayload payload) hdr
      else if gitHubEvent = LabelEvent then
        runProcessPayloadFunc fn (Unmarshalled LabelPayload payload) hdr
      else if gitHubEvent = MemberEvent then
        runProcessPayloadFunc fn (Unmarshalled MemberPayload payload) hdr
      else if gitHubEvent = MembershipEvent then
        runProcessPayloadFunc fn (Unmarshalled MembershipPayload payload) hdr
      else if gitHubEvent = MilestoneEvent then
        runProcessPayloadFunc fn (Unmarshalled MilestonePayload payload) hdr
      else if gitHubEvent = OrganizationEvent then
        runProcessPayloadFunc fn (Unmarshalled OrganizationPayload payload) hdr
      else if gitHubEvent = OrgBlockEvent then
        runProcessPayloadFunc fn (Unmarshalled OrgBlockPayload payload) hdr
      else if gitHubEvent = PageBuildEvent then
        runProcessPayloadFunc fn (Unmarshalled PageBuildPayload payload) hdr
      else if gitHubEvent = PingEvent then
        runProcessPayloadFunc fn (Unmarshalled PingPayload payload) hdr
      else if gitHubEvent = ProjectCardEvent then
        runProcessPayloadFunc fn (Unmarshalled ProjectCardPayload payload) hdr
      else if gitHubEvent = ProjectColumnEvent then
        runProcessPayloadFunc fn (Unmarshalled ProjectColumnPayload payload) hdr
      else if gitHubEvent = ProjectEvent then
        runProcessPayloadFunc fn (Unmarshalled ProjectPayload payload) hdr
      else if gitHubEvent = PublicEvent then
        runProcessPayloadFunc fn (Unmarshalled PublicPayload payload) hdr
      else if gitHubEvent = PullRequestEvent then
        runProcessPayloadFunc fn (Unmarshalled PullRequestPayload payload) hdr
      else if gitHubEvent = PullRequestReviewEvent then
        runProcessPayloadFunc fn (Unmarshalled PullRequestReviewPayload payload) hdr
      else if gitHubEvent = PullRequestReviewCommentEvent then
        runProcessPayloadFunc fn (Unmarshalled PullRequestReviewCommentPayload payload) hdr
      else if gitHubEvent = PushEvent then
        runProcessPayloadFunc fn (Unmarshalled PushPayload payload) hdr
      else if gitHubEvent = ReleaseEvent then
        runProcessPayloadFunc fn (Unmarshalled ReleasePayload payload) hdr
      else if gitHubEvent = RepositoryEvent then
        runProcessPayloadFunc fn (Unmarshalled RepositoryPayload payload) hdr
      else if gitHubEvent = StatusEvent then
        runProcessPayloadFunc fn (Unmarshalled StatusPayload payload) hdr
      else if gitHubEvent = TeamEvent then
        runProcessPayloadFunc fn (Unmarshalled TeamPayload payload) hdr
      else if gitHubEvent = TeamAddEvent then
        runProcessPayloadFunc fn (Unmarshalled TeamAddPayload payload) hdr
      else if gitHubEvent = WatchEvent then
        runProcessPayloadFunc fn (Unmarshalled WatchPayload payload) hdr
      else [])"

text \<open>
  The names that the functions of the package read without declaring them: the
  \<^verbatim>\<open>hook\<close> of \<^verbatim>\<open>getGitHubHandler\<close> and the \<^verbatim>\<open>payload\<close> of \<^verbatim>\<open>verifySignature\<close>. No function
  of the sources assigns to either.
\<close>

record 'f package_vars =
  pkg_hook :: "'f Webhook"
  pkg_payload :: bytes

text \<open>
  \<^verbatim>\<open>ParsePayload\<close>. The four steps run in the source's order: event header, handler
  lookup, signature verification, body read; each failure returns. The methods called
  without a receiver (\<^verbatim>\<open>getGitHubEvent\<close>, \<^verbatim>\<open>verifySignature\<close>, \<^verbatim>\<open>readPayload\<close>) run on the
  receiver \<open>hook\<close> of \<^verbatim>\<open>ParsePayload\<close>. A panic of \<^verbatim>\<open>verifySignature\<close> ends the run. What a
  handler does once called is its own: the run ends with the call.
\<close>

definition ParsePayload ::
  "('f, 'p) package_vars_scheme \<Rightarrow> ('f, 'h) Webhook_scheme \<Rightarrow> 'r Request_scheme
     \<Rightarrow> 'f effect list \<times> unit outcome"
where
  "ParsePayload pkg hook r =
     (case getGitHubEvent r of
        (t1, Inl err) \<Rightarrow> (t1 @ [LogError err], Returns ())
      | (t1, Inr gitHubEvent) \<Rightarrow>
          (case getGitHubHandler (pkg_hook pkg) gitHubEvent of
             Inl err \<Rightarrow> (t1 @ [LogError err], Returns ())
           | Inr fn \<Rightarrow>
               (case verifySignature hook (pkg_payload pkg) r of
                  (t2, Panics p) \<Rightarrow> (t1 @ t2, Panics p)
                | (t2, Returns (Some err)) \<Rightarrow> (t1 @ t2 @ [LogDebug err], Returns ())
                | (t2, Returns None) \<Rightarrow>
                    (case readPayload r of
                       (t3, Inl err) \<Rightarrow> (t1 @ t2 @ t3 @ [LogDebug err], Returns ())
                     | (t3, Inr payload) \<Rightarrow>
                         (t1 @ t2 @ t3 @ ParsePayload_switch fn payload (Header r) gitHubEvent,
                          Returns ())))))"


section \<open>Auxiliary facts\<close>

lemmas Event_defs =
  CommitCommentEvent_def CreateEvent_def DeleteEvent_def DeploymentEvent_def
  DeploymentStatusEvent_def ForkEvent_def GollumEvent_def InstallationEvent_def
  IntegrationInstallationEvent_def IssueCommentEvent_def IssuesEvent_def LabelEvent_def
  MemberEvent_def MembershipEvent_def MilestoneEvent_def OrganizationEvent_def
  OrgBlockEvent_def PageBuildEvent_def PingEvent_def ProjectCardEvent_def
  ProjectColumnEvent_def ProjectEvent_def PublicEvent_def PullRequestEvent_def
  PullRequestReviewEvent_def PullRequestReviewCommentEvent_def PushEvent_def
  ReleaseEvent_def RepositoryEvent_def StatusEvent_def TeamEvent_def TeamAddEvent_def
  WatchEvent_def

lemma invocations_append: "invocations (xs @ ys) = invocations xs @ invocations ys"
  by (induction xs rule: invocations.induct) simp_all

lemma responses_append: "responses (xs @ ys) = responses xs @ responses ys"
  by (induction xs rule: responses.induct) simp_all

lemma switch_outside_vocabulary:
  "ev \<notin> set vocabulary \<Longrightarrow> ParsePayload_switch fn payload hdr ev = []"
  by (simp add: ParsePayload_switch_def vocabulary_def)

lemma switch_vocabulary:
  "ev \<in> set vocabulary \<Longrightarrow>
     \<exists>T. ParsePayload_switch fn payload hdr ev = [Invoke fn (Unmarshalled T payload) hdr]"
  unfolding vocabulary_def ParsePayload_switch_def runProcessPayloadFunc_def
  by (auto simp: Event_defs)

lemma switch_Ping: "ParsePayload_switch fn payload hdr ''ping'' = [Invoke fn (Unmarshalled PingPayload payload) hdr]"
  by (simp add: ParsePayload_switch_def runProcessPayloadFunc_def Event_defs)











lemma verifySignature_invocations: "invocations (fst (verifySignature hook payload r)) = []"
  by (simp add: verifySignature_def Let_def)

lemma verifySignature_nil_responses:
  "verifySignature hook payload r = (t, Returns None) \<Longrightarrow> responses t = []"
  by (auto simp: verifySignature_def Let_def split: if_splits)


section \<open>Signature verification\<close>

text \<open>
  C6. With an empty secret, signature verification does nothing and succeeds: it writes
  no log line and no response and returns \<^verbatim>\<open>nil\<close>, whatever the request's headers are
  (an \<^verbatim>\<open>X-Hub-Signature\<close> header of any value, or none), and whatever bytes \<open>payload\<close>
  holds.
\<close>

theorem verifySignature_unsecured:
  "secret hook = [] \<Longrightarrow> verifySignature hook payload r = ([], Returns None)"
  by (simp add: verifySignature_def)

theorem verifySignature_unsecured_witness:
  "secret \<lparr>secret = [], eventFuncs = Map.empty :: Event \<rightharpoonup> nat\<rparr> = []
   \<and> verifySignature \<lparr>secret = [], eventFuncs = Map.empty :: Event \<rightharpoonup> nat\<rparr> ''{}''
        \<lparr>Header = [''X-Hub-Signature'' \<mapsto> [''sha1=00'']], Body = (''{}'', None)\<rparr>
       = ([], Returns None)
   \<and> verifySignature \<lparr>secret = [], eventFuncs = Map.empty :: Event \<rightharpoonup> nat\<rparr> ''{}''
        \<lparr>Header = Map.empty, Body = (''{}'', None)\<rparr>
       = ([], Returns None)"
  using verifySignature_unsecured
          [of "\<lparr>secret = [], eventFuncs = Map.empty :: Event \<rightharpoonup> nat\<rparr>" "''{}''"
              "\<lparr>Header = [''X-Hub-Signature'' \<mapsto> [''sha1=00'']], Body = (''{}'', None)\<rparr>"]
        verifySignature_unsecured
          [of "\<lparr>secret = [], eventFuncs = Map.empty :: Event \<rightharpoonup> nat\<rparr>" "''{}''"
              "\<lparr>Header = Map.empty, Body = (''{}'', None)\<rparr>"]
  by simp

text \<open>
  C4. With a secret configured and a presented \<^verbatim>\<open>X-Hub-Signature\<close> value that is not empty
  but shorter than five bytes, \<^verbatim>\<open>signature[5:]\<close> is out of range: the function panics
  after its two log lines, and writes no "HMAC verification failed" response. It returns
  (with \<^verbatim>\<open>nil\<close> or an error) exactly when the secret is empty, the presented value is
  empty, or the presented value has at least five bytes.
\<close>

theorem verifySignature_short_signature:
  assumes "sig = Header_Get (Header r) ''X-Hub-Signature''"
  shows "(secret hook \<noteq> [] \<and> sig \<noteq> [] \<and> length sig < 5 \<longrightarrow>
            verifySignature hook payload r =
              ([LogInfo ''Checking secret'', LogDebug (''X-Hub-Signature:'' @ sig)],
               Panics ''slice bounds out of range''))
       \<and> ((\<exists>e. snd (verifySignature hook payload r) = Returns e)
            \<longleftrightarrow> (secret hook = [] \<or> sig = [] \<or> 5 \<le> length sig))"
  using assms by (auto simp: verifySignature_def Let_def)

theorem verifySignature_short_signature_witness:
  "verifySignature \<lparr>secret = ''s3cr3t'', eventFuncs = Map.empty :: Event \<rightharpoonup> nat\<rparr> ''{}''
     \<lparr>Header = [''X-Hub-Signature'' \<mapsto> [''sha1'']], Body = (''{}'', None)\<rparr>
   = ([LogInfo ''Checking secret'', LogDebug ''X-Hub-Signature:sha1''],
      Panics ''slice bounds out of range'')
   \<and> \<not> (\<exists>e. snd (verifySignature \<lparr>secret = ''s3cr3t'', eventFuncs = Map.empty :: Event \<rightharpoonup> nat\<rparr>
                   ''{}'' \<lparr>Header = [''X-Hub-Signature'' \<mapsto> [''sha1'']], Body = (''{}'', None)\<rparr>)
            = Returns e)"
  using verifySignature_short_signature
          [of "''sha1''" "\<lparr>Header = [''X-Hub-Signature'' \<mapsto> [''sha1'']], Body = (''{}'', None)\<rparr>"
              "\<lparr>secret = ''s3cr3t'', eventFuncs = Map.empty :: Event \<rightharpoonup> nat\<rparr>" "''{}''"]
  by (simp add: Header_Get_def)




end
